theory Spec2Isabelle
  imports
    Complex_Main
    "HOL-Library.Char_ord"
    "HOL-Library.List_Lexorder"
    "HOL-Library.Product_Lexorder"
begin

section \<open>Balance tracker: ingestion, metric derivation and the dashboard\<close>

text \<open>
  The program is one Python module, \<^verbatim>\<open>pythontracker_18.py\<close>: a Flask application with
  an ingestion route \<^verbatim>\<open>update_balance\<close>, a report route \<^verbatim>\<open>index\<close>, the metric derivation
  \<^verbatim>\<open>compute_metrics\<close> used by the report, and the \<^verbatim>\<open>after_request\<close> hook \<^verbatim>\<open>add_header\<close>.
  The definitions below follow the module line by line. What belongs to pandas, plotly,
  Flask or the operating system is either written out (group-wise differences, the
  comparison with a missing value, group-wise last values) or, where its result is not
  fixed by the module (the CSV parser, the order \<^verbatim>\<open>sort_values\<close> gives to equal
  timestamps, the text Python prints for a JSON value, the type the parser gives the
  identifier column), taken as a parameter.
\<close>

subsection \<open>Floating-point columns\<close>

text \<open>
  A pandas float column holds IEEE doubles. The special values decide several of the
  properties below (a first record has the difference \<^verbatim>\<open>NaN\<close>, a division by zero
  gives an infinity), so they are constructors. A finite double is modelled by the
  real number it denotes.
  An arithmetic result whose magnitude reaches \<open>2\<^sup>1\<^sup>0\<^sup>2\<^sup>4 - 2\<^sup>9\<^sup>7\<^sup>0\<close>, the least real that
  rounds to an infinity, is that infinity; below that bound rounding is not modelled,
  and neither is the sign of zero.
\<close>

datatype float64 = Fin real | PInf | NInf | NaN

definition overflow_bound :: real where
  "overflow_bound = 2 ^ 1024 - 2 ^ 970"

definition finite_result :: "real \<Rightarrow> float64" where
  "finite_result v =
     (if overflow_bound \<le> v then PInf else if v \<le> - overflow_bound then NInf else Fin v)"

text \<open>Subtraction of two doubles.\<close>

fun fsub :: "float64 \<Rightarrow> float64 \<Rightarrow> float64" where
  "fsub NaN _ = NaN"
| "fsub _ NaN = NaN"
| "fsub (Fin a) (Fin b) = finite_result (a - b)"
| "fsub (Fin _) PInf = NInf"
| "fsub (Fin _) NInf = PInf"
| "fsub PInf PInf = NaN"
| "fsub PInf _ = PInf"
| "fsub NInf NInf = NaN"
| "fsub NInf _ = NInf"

text \<open>
  Division as numpy performs it on float arrays: no exception, a non-zero number over
  zero is an infinity and zero over zero is \<^verbatim>\<open>NaN\<close>. (The only zero divisor the module
  produces is a difference of two equal timestamps, which is \<^verbatim>\<open>+0.0\<close>.)
\<close>

fun fdiv :: "float64 \<Rightarrow> float64 \<Rightarrow> float64" where
  "fdiv NaN _ = NaN"
| "fdiv _ NaN = NaN"
| "fdiv (Fin a) (Fin b) =
     (if b = 0 then (if a = 0 then NaN else if 0 < a then PInf else NInf)
      else finite_result (a / b))"
| "fdiv (Fin _) _ = Fin 0"
| "fdiv PInf (Fin b) = (if 0 \<le> b then PInf else NInf)"
| "fdiv NInf (Fin b) = (if 0 \<le> b then NInf else PInf)"
| "fdiv _ _ = NaN"

fun fmul :: "float64 \<Rightarrow> float64 \<Rightarrow> float64" where
  "fmul NaN _ = NaN"
| "fmul _ NaN = NaN"
| "fmul (Fin a) (Fin b) = finite_result (a * b)"
| "fmul (Fin a) PInf = (if a = 0 then NaN else if 0 < a then PInf else NInf)"
| "fmul (Fin a) NInf = (if a = 0 then NaN else if 0 < a then NInf else PInf)"
| "fmul PInf (Fin b) = (if b = 0 then NaN else if 0 < b then PInf else NInf)"
| "fmul NInf (Fin b) = (if b = 0 then NaN else if 0 < b then NInf else PInf)"
| "fmul PInf PInf = PInf"
| "fmul PInf NInf = NInf"
| "fmul NInf PInf = NInf"
| "fmul NInf NInf = PInf"

text \<open>The comparison \<^verbatim>\<open><\<close>: false whenever an operand is \<^verbatim>\<open>NaN\<close>.\<close>

fun flt :: "float64 \<Rightarrow> float64 \<Rightarrow> bool" where
  "flt NaN _ = False"
| "flt _ NaN = False"
| "flt (Fin a) (Fin b) = (a < b)"
| "flt _ NInf = False"
| "flt NInf _ = True"
| "flt PInf _ = False"
| "flt (Fin _) PInf = True"

text \<open>\<^verbatim>\<open>Series.fillna(v)\<close>: only \<^verbatim>\<open>NaN\<close> is replaced, an infinity is kept.\<close>

fun fillna :: "float64 \<Rightarrow> float64 \<Rightarrow> float64" where
  "fillna v NaN = v"
| "fillna v x = x"

fun is_fin :: "float64 \<Rightarrow> bool" where
  "is_fin (Fin _) = True"
| "is_fin _ = False"

subsection \<open>Frames\<close>

text \<open>
  A row of a balance log as \<^verbatim>\<open>index\<close> holds it before \<^verbatim>\<open>compute_metrics\<close>: the
  timestamp parsed by \<^verbatim>\<open>pd.to_datetime\<close> (nanoseconds since the epoch, as in a
  \<^verbatim>\<open>datetime64[ns]\<close> column), the identifier, the balance as a double and the origin
  label, which is missing (\<open>None\<close>) when the CSV field is empty. A data frame is the
  list of its rows in frame order. Row labels are not modelled: every column the
  module assigns has the labels of the frame it is assigned to, so no assignment
  realigns rows. Rows whose timestamp or identifier is missing are outside the model.

  The type \<open>'k\<close> of the identifier is the type of the values the CSV parser puts in
  the column \<^verbatim>\<open>Peer ID\<close>: 64-bit integers when the identifiers are written in digits,
  text otherwise. Where identifiers are ordered (the group keys of a \<^verbatim>\<open>groupby\<close>),
  \<open>'k\<close> carries the order pandas sorts such values by: integers by value (the order
  of \<open>int\<close>), text by code points (the order of \<open>string\<close> here). The type and its
  order are a parameter of the model; the examples below take one or the other.
\<close>

record 'k row =
  Date :: int
  Peer_ID :: 'k
  Balance :: float64
  Hostname :: "string option"

text \<open>The frame after lines 26 to 28 of the module.\<close>

record 'k drow = "'k row" +
  Time_Diff_Minutes :: float64
  Quil_Per_Minute :: float64

text \<open>The frame \<^verbatim>\<open>compute_metrics\<close> returns.\<close>

record 'k mrow = "'k drow" +
  Quil_Per_Hour :: float64
  Hour :: int

text \<open>A row of \<^verbatim>\<open>hourly_growth\<close>.\<close>

record 'k hrow =
  h_Peer_ID :: 'k
  h_Hour :: int
  h_Balance :: float64
  h_Growth :: float64
  h_Quil_Per_Hour :: float64

subsection \<open>Group-wise operations of pandas\<close>

text \<open>
  \<^verbatim>\<open>df.groupby(key)[col].diff()\<close> subtracts from each row the previous row of the same
  group, in frame order, and leaves the result at the row's own position; a row with
  no previous row in its group gets a missing value. \<open>groupby_shift\<close> gives, for
  every row, that previous row; \<open>seen\<close> holds the rows already passed, latest first.
\<close>

fun groupby_shift :: "('a \<Rightarrow> 'k) \<Rightarrow> 'a list \<Rightarrow> 'a list \<Rightarrow> 'a option list" where
  "groupby_shift key seen [] = []"
| "groupby_shift key seen (r # rs) =
     find (\<lambda>p. key p = key r) seen # groupby_shift key (r # seen) rs"

text \<open>
  \<^verbatim>\<open>groupby(...)[col].last()\<close> takes, per group, the last value that is not missing, and
  a missing value when the group has none.
\<close>

definition last_valid :: "float64 list \<Rightarrow> float64" where
  "last_valid xs = (let ys = filter (\<lambda>x. x \<noteq> NaN) xs in if ys = [] then NaN else last ys)"

definition last_some :: "'a option list \<Rightarrow> 'a option" where
  "last_some xs = (let ys = filter (\<lambda>x. x \<noteq> None) xs in if ys = [] then None else last ys)"

text \<open>The group keys of a \<^verbatim>\<open>groupby\<close> (\<^verbatim>\<open>sort=True\<close>): the distinct keys, ascending.\<close>

definition group_keys :: "('a \<Rightarrow> 'k::linorder) \<Rightarrow> 'a list \<Rightarrow> 'k list" where
  "group_keys key df = sort (remdups (map key df))"

subsection \<open>Exceptions\<close>

text \<open>
  The exceptions the module can meet. \<open>Raised\<close> carries the class name of any other
  exception a library call raises (the CSV parser, \<^verbatim>\<open>request.get_json\<close>, the checked
  arithmetic of pandas, the file system).
\<close>

datatype exception = TypeError | KeyError | FileNotFoundError | Raised string

subsection \<open>Metric derivation: \<^verbatim>\<open>compute_metrics\<close>\<close>

text \<open>
  \<^verbatim>\<open>.dt.total_seconds()\<close> of a difference of timestamps: \<^verbatim>\<open>NaN\<close> for the missing
  difference \<^verbatim>\<open>NaT\<close>, else the nanoseconds over \<open>10\<^sup>9\<close>.
\<close>

fun total_seconds :: "int option \<Rightarrow> float64" where
  "total_seconds None = NaN"
| "total_seconds (Some ns) = Fin (real_of_int ns / 1000000000)"

text \<open>
  The difference of two timestamps on line 26 is a 64-bit count of nanoseconds. pandas
  checks the subtraction: when the difference does not fit (the two timestamps lie
  \<open>2\<^sup>6\<^sup>3\<close> nanoseconds, about 292 years, or more apart) it raises \<^verbatim>\<open>OverflowError\<close>.
  The column is computed as a whole, so one such pair of rows makes line 26 raise.
\<close>

definition out_of_range :: "int \<Rightarrow> bool" where
  "out_of_range d = (d \<le> - (2 ^ 63) \<or> 2 ^ 63 \<le> d)"

definition diff_overflows :: "'k row \<Rightarrow> 'k row option \<Rightarrow> bool" where
  "diff_overflows r p = (case p of None \<Rightarrow> False | Some q \<Rightarrow> out_of_range (Date r - Date q))"

text \<open>
  Line 26, for a row \<open>r\<close> whose previous row of the same identifier is \<open>p\<close> and whose
  difference fits.
\<close>

definition time_diff_minutes :: "'k row \<Rightarrow> 'k row option \<Rightarrow> float64" where
  "time_diff_minutes r p =
     fdiv (total_seconds (map_option (\<lambda>q. Date r - Date q) p)) (Fin 60)"

text \<open>\<^verbatim>\<open>df.groupby('Peer ID')['Balance'].diff()\<close> of line 27.\<close>

definition balance_diff :: "'k row \<Rightarrow> 'k row option \<Rightarrow> float64" where
  "balance_diff r p = (case p of None \<Rightarrow> NaN | Some q \<Rightarrow> fsub (Balance r) (Balance q))"

text \<open>Lines 26 to 28: the two new columns of a row.\<close>

definition with_rates :: "'k row \<Rightarrow> 'k row option \<Rightarrow> 'k drow" where
  "with_rates r p =
     \<lparr>Date = Date r, Peer_ID = Peer_ID r, Balance = Balance r, Hostname = Hostname r,
      Time_Diff_Minutes = time_diff_minutes r p,
      Quil_Per_Minute = fillna (Fin 0) (fdiv (balance_diff r p) (time_diff_minutes r p))\<rparr>"

text \<open>Line 37: \<^verbatim>\<open>dt.floor('h')\<close>, the start of the timestamp's hour.\<close>

definition floor_hour :: "int \<Rightarrow> int" where
  "floor_hour t = t - t mod 3600000000000"

text \<open>Lines 34 and 37: the hourly rate and the hour bucket of a retained row.\<close>

definition with_hour :: "'k drow \<Rightarrow> 'k mrow" where
  "with_hour r =
     \<lparr>Date = Date r, Peer_ID = Peer_ID r, Balance = Balance r, Hostname = Hostname r,
      Time_Diff_Minutes = Time_Diff_Minutes r, Quil_Per_Minute = Quil_Per_Minute r,
      Quil_Per_Hour = fmul (Quil_Per_Minute r) (Fin 60),
      Hour = floor_hour (Date r)\<rparr>"

text \<open>
  Lines 38 to 42. The groups of \<^verbatim>\<open>groupby(['Peer ID', 'Hour'])\<close> come out ordered by
  identifier and then by hour; \<^verbatim>\<open>Growth\<close> is the group-wise difference of the bucket
  balances with the missing differences filled with zero.
\<close>

definition bucket :: "'k mrow list \<Rightarrow> 'k \<times> int \<Rightarrow> 'k mrow list" where
  "bucket df k = filter (\<lambda>r. (Peer_ID r, Hour r) = k) df"

definition growth :: "('k \<times> int) \<times> float64 \<Rightarrow> (('k \<times> int) \<times> float64) option \<Rightarrow> float64" where
  "growth b p = fillna (Fin 0) (case p of None \<Rightarrow> NaN | Some q \<Rightarrow> fsub (snd b) (snd q))"

definition hourly_growth :: "'k::linorder mrow list \<Rightarrow> 'k hrow list" where
  "hourly_growth df =
     (let keys = group_keys (\<lambda>r. (Peer_ID r, Hour r)) df;
          last_balance = map (\<lambda>k. (k, last_valid (map Balance (bucket df k)))) keys
      in map2 (\<lambda>b p. \<lparr>h_Peer_ID = fst (fst b), h_Hour = snd (fst b), h_Balance = snd b,
                        h_Growth = growth b p, h_Quil_Per_Hour = growth b p\<rparr>)
           last_balance (groupby_shift (\<lambda>b. fst (fst b)) [] last_balance))"

text \<open>
  \<^verbatim>\<open>compute_metrics(df)\<close>. The two conversions of lines 22 and 23 leave a frame of parsed
  rows as it is. Line 26 raises when a difference of timestamps overflows. Line 31
  keeps the rows whose \<^verbatim>\<open>Time_Diff_Minutes < 120\<close> is true.
\<close>

definition compute_metrics ::
  "'k::linorder row list \<Rightarrow> exception + 'k mrow list \<times> 'k hrow list" where
  "compute_metrics df =
     (let previous = groupby_shift Peer_ID [] df in
      if list_ex (\<lambda>(r, p). diff_overflows r p) (zip df previous)
      then Inl (Raised ''OverflowError'')
      else
        (let df1 = map2 with_rates df previous;
             df2 = filter (\<lambda>r. flt (Time_Diff_Minutes r) (Fin 120)) df1;
             df3 = map with_hour df2
         in Inr (df3, hourly_growth df3)))"

subsection \<open>JSON values and the storage directory\<close>

text \<open>
  What \<^verbatim>\<open>request.get_json()\<close> returns: a parsed JSON value. An object is the list of
  its members in the order of the body; a later member overrides an earlier one of the
  same name, as in the dictionary Python builds. A number is kept by its value (only
  whether it is zero matters to the module).
\<close>

datatype json =
  JNull | JBool bool | JNum real | JStr string | JArr "json list" | JObj "(string \<times> json) list"

text \<open>Python's truth value of a JSON value, as \<^verbatim>\<open>not data\<close> tests it.\<close>

fun truthy :: "json \<Rightarrow> bool" where
  "truthy JNull = False"
| "truthy (JBool b) = b"
| "truthy (JNum x) = (x \<noteq> 0)"
| "truthy (JStr s) = (s \<noteq> [])"
| "truthy (JArr xs) = (xs \<noteq> [])"
| "truthy (JObj kvs) = (kvs \<noteq> [])"

fun is_substring :: "string \<Rightarrow> string \<Rightarrow> bool" where
  "is_substring k [] = (k = [])"
| "is_substring k (c # cs) = (take (length k) (c # cs) = k \<or> is_substring k cs)"

text \<open>
  \<^verbatim>\<open>key in data\<close>: membership among the names of an object, among the elements of an
  array, as a substring of a string; a \<^verbatim>\<open>TypeError\<close> for a number, a boolean or
  \<^verbatim>\<open>None\<close>.
\<close>

fun py_in :: "string \<Rightarrow> json \<Rightarrow> exception + bool" where
  "py_in k (JObj kvs) = Inr (k \<in> set (map fst kvs))"
| "py_in k (JArr xs) = Inr (JStr k \<in> set xs)"
| "py_in k (JStr s) = Inr (is_substring k s)"
| "py_in k _ = Inl TypeError"

text \<open>\<^verbatim>\<open>data[key]\<close> with a string key.\<close>

fun getitem :: "json \<Rightarrow> string \<Rightarrow> exception + json" where
  "getitem (JObj kvs) k = (case map_of (rev kvs) k of None \<Rightarrow> Inl KeyError | Some v \<Rightarrow> Inr v)"
| "getitem _ k = Inl TypeError"

text \<open>
  The storage directory \<^verbatim>\<open>CSV_DIRECTORY\<close>: absent, or a flat directory of text files,
  each a name and its contents. Files are addressed by their name inside the
  directory (\<^verbatim>\<open>os.path.join\<close> only prefixes the directory). The directory has no
  subdirectories, so a name with a slash in it names no file and cannot be opened.
  Neither can a name with a null character in it (Python raises \<^verbatim>\<open>ValueError\<close>) or a
  name of more than 255 bytes (the file system refuses it with an \<^verbatim>\<open>OSError\<close>);
  \<^verbatim>\<open>os.path.exists\<close> is false for all of these.
\<close>

definition open_error :: "string \<Rightarrow> exception option" where
  "open_error name =
     (if CHR 0x00 \<in> set name then Some (Raised ''ValueError'')
      else if 255 < length name then Some (Raised ''OSError'')
      else if CHR ''/'' \<in> set name then Some FileNotFoundError
      else None)"

datatype storage = Missing | Directory "(string \<times> string) list"

fun listdir :: "storage \<Rightarrow> exception + string list" where
  "listdir Missing = Inl FileNotFoundError"
| "listdir (Directory fs) = Inr (map fst fs)"

fun path_exists :: "storage \<Rightarrow> string \<Rightarrow> bool" where
  "path_exists Missing name = False"
| "path_exists (Directory fs) name = (open_error name = None \<and> name \<in> set (map fst fs))"

fun put_file :: "string \<Rightarrow> string \<Rightarrow> (string \<times> string) list \<Rightarrow> (string \<times> string) list" where
  "put_file name s [] = [(name, s)]"
| "put_file name s ((n, old) # fs) =
     (if n = name then (n, s) # fs else (n, old) # put_file name s fs)"

fun append_file :: "string \<Rightarrow> string \<Rightarrow> (string \<times> string) list \<Rightarrow> (string \<times> string) list" where
  "append_file name s [] = [(name, s)]"
| "append_file name s ((n, old) # fs) =
     (if n = name then (n, old @ s) # fs else (n, old) # append_file name s fs)"

text \<open>\<^verbatim>\<open>with open(name, 'w') as f: f.write(s)\<close>: creates or truncates the file.\<close>

fun open_write :: "storage \<Rightarrow> string \<Rightarrow> string \<Rightarrow> exception + storage" where
  "open_write Missing name s =
     (case open_error name of None \<Rightarrow> Inl FileNotFoundError | Some e \<Rightarrow> Inl e)"
| "open_write (Directory fs) name s =
     (case open_error name of
        None \<Rightarrow> Inr (Directory (put_file name s fs))
      | Some e \<Rightarrow> Inl e)"

text \<open>\<^verbatim>\<open>with open(name, 'a') as f: f.write(s)\<close>: creates the file or extends it.\<close>

fun open_append :: "storage \<Rightarrow> string \<Rightarrow> string \<Rightarrow> exception + storage" where
  "open_append Missing name s =
     (case open_error name of None \<Rightarrow> Inl FileNotFoundError | Some e \<Rightarrow> Inl e)"
| "open_append (Directory fs) name s =
     (case open_error name of
        None \<Rightarrow> Inr (Directory (append_file name s fs))
      | Some e \<Rightarrow> Inl e)"

subsection \<open>Ingestion: \<^verbatim>\<open>update_balance\<close>\<close>

text \<open>
  One disjunct \<^verbatim>\<open>key not in data\<close> of line 53 followed by the rest of the disjunction:
  an exception of the membership test is the result, a missing key decides, and
  otherwise the rest does.
\<close>

definition not_in_or :: "string \<Rightarrow> json \<Rightarrow> exception + bool \<Rightarrow> exception + bool" where
  "not_in_or k data rest =
     (case py_in k data of
        Inl e \<Rightarrow> Inl e
      | Inr present \<Rightarrow> (if \<not> present then Inr True else rest))"

text \<open>
  The condition of line 53, evaluated left to right: whether the data is refused,
  unless a membership test raises.
\<close>

definition refused :: "json \<Rightarrow> exception + bool" where
  "refused data =
     (if \<not> truthy data then Inr True
      else not_in_or ''peer_id'' data
            (not_in_or ''balance'' data
              (not_in_or ''timestamp'' data
                (not_in_or ''hostname'' data (Inr False)))))"

definition header_line :: string where
  "header_line = ''Date,Peer ID,Balance,Hostname'' @ [CHR 0x0A]"

text \<open>
  Lines 56 to 71, once the data is accepted: the four values are read, then the log
  file gets its header if it does not exist yet (lines 63 to 65) and the new line
  (lines 67 and 68). \<open>fmt\<close> is the text an f-string prints for a JSON value (Python's
  \<^verbatim>\<open>format\<close>). The storage is returned with whatever was written before an
  exception.
\<close>

definition write_log ::
  "storage \<Rightarrow> string \<Rightarrow> string \<Rightarrow> storage \<times> (exception + string \<times> nat)" where
  "write_log st log_file line =
     (case (if \<not> path_exists st log_file then open_write st log_file header_line else Inr st) of
        Inl e \<Rightarrow> (st, Inl e)
      | Inr st1 \<Rightarrow>
          (case open_append st1 log_file line of
             Inl e \<Rightarrow> (st1, Inl e)
           | Inr st2 \<Rightarrow> (st2, Inr (''Balance updated'', 200))))"

definition log_balance ::
  "(json \<Rightarrow> string) \<Rightarrow> storage \<Rightarrow> json \<Rightarrow> storage \<times> (exception + string \<times> nat)" where
  "log_balance fmt st data =
     (case getitem data ''peer_id'' of
        Inl e \<Rightarrow> (st, Inl e)
      | Inr peer_id \<Rightarrow>
     (case getitem data ''balance'' of
        Inl e \<Rightarrow> (st, Inl e)
      | Inr balance \<Rightarrow>
     (case getitem data ''timestamp'' of
        Inl e \<Rightarrow> (st, Inl e)
      | Inr timestamp \<Rightarrow>
     (case getitem data ''hostname'' of
        Inl e \<Rightarrow> (st, Inl e)
      | Inr hostname \<Rightarrow>
          write_log st (''node_balance_'' @ fmt peer_id @ ''.csv'')
            (fmt timestamp @ '','' @ fmt peer_id @ '','' @ fmt balance @ '','' @ fmt hostname
               @ [CHR 0x0A])))))"

text \<open>The body of the \<^verbatim>\<open>try\<close>, from \<^verbatim>\<open>get_json\<close> on. Console prints are left out.\<close>

definition try_update_balance ::
  "(json \<Rightarrow> string) \<Rightarrow> storage \<Rightarrow> exception + json \<Rightarrow> storage \<times> (exception + string \<times> nat)" where
  "try_update_balance fmt st get_json =
     (case get_json of
        Inl e \<Rightarrow> (st, Inl e)
      | Inr data \<Rightarrow>
          (case refused data of
             Inl e \<Rightarrow> (st, Inl e)
           | Inr r \<Rightarrow> (if r then (st, Inr (''Invalid data'', 400)) else log_balance fmt st data)))"

text \<open>
  \<^verbatim>\<open>update_balance()\<close>: the \<^verbatim>\<open>try\<close> with its \<^verbatim>\<open>except Exception\<close>. The request is given
  by what \<^verbatim>\<open>request.get_json()\<close> does for it: the value it returns or the exception
  it raises.
\<close>

definition update_balance ::
  "(json \<Rightarrow> string) \<Rightarrow> storage \<Rightarrow> exception + json \<Rightarrow> storage \<times> string \<times> nat" where
  "update_balance fmt st get_json =
     (case try_update_balance fmt st get_json of
        (st', Inl e) \<Rightarrow> (st', (''Internal Server Error'', 500))
      | (st', Inr response) \<Rightarrow> (st', response))"

subsection \<open>The report: \<^verbatim>\<open>index\<close>\<close>

text \<open>\<^verbatim>\<open>file_name.endswith('.csv')\<close>.\<close>

definition endswith :: "string \<Rightarrow> string \<Rightarrow> bool" where
  "endswith s suf = (length suf \<le> length s \<and> drop (length s - length suf) s = suf)"

text \<open>
  Lines 87 to 90 for one listed file. \<open>read_csv\<close> stands for the pandas parser
  followed by the normalisation of the balance column: from the text of a file it
  gives the frame that is appended to \<^verbatim>\<open>data_frames\<close>, or the exception raised on the
  way (an empty file, a file without a \<^verbatim>\<open>Balance\<close> column, digits that are no number).
\<close>

definition load_file ::
  "(string \<Rightarrow> exception + 'k row list) \<Rightarrow> storage \<Rightarrow> string \<Rightarrow> exception + 'k row list" where
  "load_file read_csv st file_name =
     (case st of
        Missing \<Rightarrow> Inl FileNotFoundError
      | Directory fs \<Rightarrow>
          (case map_of fs file_name of
             None \<Rightarrow> Inl FileNotFoundError
           | Some contents \<Rightarrow> read_csv contents))"

text \<open>The loop of lines 83 to 92 over the listed names; an exception ends it.\<close>

fun load_frames ::
  "(string \<Rightarrow> exception + 'k row list) \<Rightarrow> storage \<Rightarrow> string list
     \<Rightarrow> exception + 'k row list list" where
  "load_frames read_csv st [] = Inr []"
| "load_frames read_csv st (file_name # rest) =
     (if endswith file_name ''.csv'' then
        (case load_file read_csv st file_name of
           Inl e \<Rightarrow> Inl e
         | Inr df \<Rightarrow>
             (case load_frames read_csv st rest of
                Inl e \<Rightarrow> Inl e
              | Inr dfs \<Rightarrow> Inr (df # dfs)))
      else load_frames read_csv st rest)"

text \<open>
  A row of \<^verbatim>\<open>latest_balances\<close> (line 104), with the columns that are used afterwards.
  \<^verbatim>\<open>groupby('Peer ID').last()\<close> takes the last value of every column that is not
  missing; the first \<^verbatim>\<open>reset_index()\<close> turns the identifier into a column and leaves
  the rows numbered from 0.
\<close>

record 'k lrow =
  l_Peer_ID :: 'k
  l_Balance :: float64
  l_Hostname :: "string option"
  l_Quil_Per_Minute :: float64
  l_Quil_Per_Hour :: float64

definition group_of :: "'k mrow list \<Rightarrow> 'k \<Rightarrow> 'k mrow list" where
  "group_of df k = filter (\<lambda>r. Peer_ID r = k) df"

definition groupby_last :: "'k::linorder mrow list \<Rightarrow> 'k lrow list" where
  "groupby_last df =
     map (\<lambda>k. \<lparr>l_Peer_ID = k,
               l_Balance = last_valid (map Balance (group_of df k)),
               l_Hostname = last_some (map Hostname (group_of df k)),
               l_Quil_Per_Minute = last_valid (map Quil_Per_Minute (group_of df k)),
               l_Quil_Per_Hour = last_valid (map Quil_Per_Hour (group_of df k))\<rparr>)
       (group_keys Peer_ID df)"

text \<open>Line 105: the column \<^verbatim>\<open>Hostname\<close> is assigned again, by position.\<close>

definition hostname_last :: "'k::linorder mrow list \<Rightarrow> string option list" where
  "hostname_last df =
     map (\<lambda>k. last_some (map Hostname (group_of df k))) (group_keys Peer_ID df)"

text \<open>
  A record of \<^verbatim>\<open>table_data\<close> (lines 107 and 108): the four selected columns, and the
  column \<^verbatim>\<open>index\<close> that the second \<^verbatim>\<open>reset_index()\<close> makes of the row numbers.
\<close>

record trow =
  t_index :: nat
  t_Hostname :: "string option"
  t_Balance :: float64
  t_Quil_Per_Minute :: float64
  t_Quil_Per_Hour :: float64

definition to_records :: "'k lrow list \<Rightarrow> trow list" where
  "to_records latest =
     map2 (\<lambda>i l. \<lparr>t_index = i, t_Hostname = l_Hostname l, t_Balance = l_Balance l,
                  t_Quil_Per_Minute = l_Quil_Per_Minute l,
                  t_Quil_Per_Hour = l_Quil_Per_Hour l\<rparr>)
       [0 ..< length latest] latest"

text \<open>
  The charts are plotly's work: a figure is kept as the call that makes it, and its
  markup as the figure it renders. The empty placeholder is the empty string.
\<close>

datatype chart = Line | Bar

record 'k figure =
  fig_chart :: chart
  fig_data_frame :: "'k mrow list"
  fig_x :: string
  fig_y :: string
  fig_color :: string
  fig_title :: string
  fig_template :: string

datatype 'k html = Html string | To_html "'k figure"

text \<open>What \<^verbatim>\<open>render_template\<close> is handed: the template's name and its variables.\<close>

record 'k page =
  template_name :: string
  table_data :: "trow list"
  balance_graph_html :: "'k html"
  quil_minute_graph_html :: "'k html"
  night_mode :: string

text \<open>
  \<^verbatim>\<open>index()\<close>. \<open>arg\<close> is the query argument \<^verbatim>\<open>night_mode\<close> if the request has one;
  \<open>sort_values\<close> is \<^verbatim>\<open>sort_values('Date')\<close>, whose order among equal timestamps is
  the library's (the examples below take the stable sort \<open>sort_key Date\<close>). The files
  are read in the order of the listing. Nothing in the function catches an
  exception: one raised by \<^verbatim>\<open>os.listdir\<close>, while a file is loaded or by
  \<^verbatim>\<open>compute_metrics\<close> is the result.
\<close>

definition index ::
  "(string \<Rightarrow> exception + 'k::linorder row list) \<Rightarrow> ('k row list \<Rightarrow> 'k row list) \<Rightarrow> storage
     \<Rightarrow> string option \<Rightarrow> exception + 'k page" where
  "index read_csv sort_values st arg =
     (let night_mode = (case arg of None \<Rightarrow> ''off'' | Some v \<Rightarrow> v) in
      case listdir st of
        Inl e \<Rightarrow> Inl e
      | Inr names \<Rightarrow>
          (case load_frames read_csv st names of
             Inl e \<Rightarrow> Inl e
           | Inr data_frames \<Rightarrow>
               if data_frames \<noteq> [] then
                 (case compute_metrics (sort_values (concat data_frames)) of
                    Inl e \<Rightarrow> Inl e
                  | Inr (combined_df, hourly_growth_df) \<Rightarrow>
                      (let latest_balances =
                             map2 (\<lambda>l h. l\<lparr>l_Hostname := h\<rparr>)
                               (groupby_last combined_df) (hostname_last combined_df);
                           chart_template =
                             (if night_mode = ''on'' then ''plotly_dark'' else ''plotly'');
                           balance_fig =
                             \<lparr>fig_chart = Line, fig_data_frame = combined_df, fig_x = ''Date'',
                              fig_y = ''Balance'', fig_color = ''Peer ID'',
                              fig_title = ''Node Balances Over Time'',
                              fig_template = chart_template\<rparr>;
                           quil_per_minute_fig =
                             \<lparr>fig_chart = Bar, fig_data_frame = combined_df, fig_x = ''Date'',
                              fig_y = ''Quil_Per_Minute'', fig_color = ''Peer ID'',
                              fig_title = ''Quil Earned Per Minute'',
                              fig_template = chart_template\<rparr>
                       in Inr \<lparr>template_name = ''index.html'',
                               table_data = to_records latest_balances,
                               balance_graph_html = To_html balance_fig,
                               quil_minute_graph_html = To_html quil_per_minute_fig,
                               night_mode = night_mode\<rparr>))
               else
                 Inr \<lparr>template_name = ''index.html'', table_data = [],
                      balance_graph_html = Html [], quil_minute_graph_html = Html [],
                      night_mode = night_mode\<rparr>))"

subsection \<open>The application: routes and the \<^verbatim>\<open>after_request\<close> hook\<close>

text \<open>A response: its body, its status code and its headers.\<close>

datatype 'k content = Plain string | Rendered "'k page"

record 'k response =
  content :: "'k content"
  status :: nat
  headers :: "string \<rightharpoonup> string"

text \<open>\<^verbatim>\<open>add_header(response)\<close>, lines 15 to 18: three headers are set, the rest is kept.\<close>

definition add_header :: "'k response \<Rightarrow> 'k response" where
  "add_header response =
     response\<lparr>headers := (headers response)
       (''Cache-Control'' \<mapsto>
          ''no-store, no-cache, must-revalidate, post-check=0, pre-check=0, max-age=0'',
        ''Pragma'' \<mapsto> ''no-cache'',
        ''Expires'' \<mapsto> ''0'')\<rparr>"

text \<open>
  Flask turns what a view returns into a response (a text is a page of HTML) and then
  runs the \<^verbatim>\<open>after_request\<close> functions on it.
\<close>

definition make_response :: "'k content \<Rightarrow> nat \<Rightarrow> 'k response" where
  "make_response c code =
     \<lparr>content = c, status = code,
      headers = [''Content-Type'' \<mapsto> ''text/html; charset=utf-8'']\<rparr>"

text \<open>The two routes: \<^verbatim>\<open>POST /update_balance\<close> with its JSON body, and \<^verbatim>\<open>GET /\<close>.\<close>

datatype request = Post_update_balance "exception + json" | Get_index "string option"

text \<open>
  One request served by the application. An exception that leaves a view is not a
  response of the module: it is left to the server the application runs under.
\<close>

definition serve ::
  "(json \<Rightarrow> string) \<Rightarrow> (string \<Rightarrow> exception + 'k::linorder row list)
     \<Rightarrow> ('k row list \<Rightarrow> 'k row list) \<Rightarrow> storage \<Rightarrow> request
     \<Rightarrow> storage \<times> (exception + 'k response)" where
  "serve fmt read_csv sort_values st req =
     (case req of
        Post_update_balance get_json \<Rightarrow>
          (case update_balance fmt st get_json of
             (st', body, code) \<Rightarrow> (st', Inr (add_header (make_response (Plain body) code))))
      | Get_index arg \<Rightarrow>
          (case index read_csv sort_values st arg of
             Inl e \<Rightarrow> (st, Inl e)
           | Inr p \<Rightarrow> (st, Inr (add_header (make_response (Rendered p) 200)))))"

section \<open>Properties\<close>

subsection \<open>Group-wise shifts\<close>

lemma length_groupby_shift: "length (groupby_shift key seen xs) = length xs"
  by (induction xs arbitrary: seen) auto

text \<open>The previous row of the group is the nearest earlier row with the same key.\<close>

lemma groupby_shift_nth:
  "i < length xs \<Longrightarrow>
   groupby_shift key seen xs ! i = find (\<lambda>p. key p = key (xs ! i)) (rev (take i xs) @ seen)"
proof (induction xs arbitrary: seen i)
  case Nil
  then show ?case by simp
next
  case (Cons r rs)
  show ?case
  proof (cases i)
    case 0
    then show ?thesis by simp
  next
    case (Suc n)
    with Cons.prems have "n < length rs" by simp
    from Cons.IH [OF this, of "r # seen"] Suc show ?thesis by simp
  qed
qed

lemma find_rev_take_None:
  assumes "i \<le> length xs" and "\<forall>j<i. \<not> P (xs ! j)"
  shows "find P (rev (take i xs)) = None"
proof -
  have "\<not> P v" if "v \<in> set (take i xs)" for v
  proof -
    from that obtain j where "j < length (take i xs)" "v = take i xs ! j"
      by (auto simp: in_set_conv_nth)
    with assms show ?thesis by simp
  qed
  then show ?thesis by (simp add: find_None_iff)
qed

lemma find_rev_take_Some:
  "i \<le> length xs \<Longrightarrow> j < i \<Longrightarrow> P (xs ! j) \<Longrightarrow> (\<forall>k. j < k \<and> k < i \<longrightarrow> \<not> P (xs ! k)) \<Longrightarrow>
   find P (rev (take i xs)) = Some (xs ! j)"
proof (induction i)
  case 0
  then show ?case by simp
next
  case (Suc i)
  then have unfold: "take (Suc i) xs = take i xs @ [xs ! i]"
    by (simp add: take_Suc_conv_app_nth)
  show ?case
  proof (cases "j = i")
    case True
    with Suc.prems unfold show ?thesis by simp
  next
    case False
    with Suc.prems have "j < i" "\<not> P (xs ! i)" by auto
    moreover from Suc.prems have "\<forall>k. j < k \<and> k < i \<longrightarrow> \<not> P (xs ! k)" by auto
    ultimately show ?thesis using Suc.IH Suc.prems unfold by simp
  qed
qed

lemma shift_first:
  assumes "i < length xs" and "\<forall>j<i. key (xs ! j) \<noteq> key (xs ! i)"
  shows "groupby_shift key [] xs ! i = None"
  using assms by (simp add: groupby_shift_nth find_rev_take_None)

lemma shift_previous:
  assumes "i < length xs" and "j < i" and "key (xs ! j) = key (xs ! i)"
    and "\<forall>k. j < k \<and> k < i \<longrightarrow> key (xs ! k) \<noteq> key (xs ! i)"
  shows "groupby_shift key [] xs ! i = Some (xs ! j)"
  using assms by (simp add: groupby_shift_nth find_rev_take_Some)

subsection \<open>Group keys and last values\<close>

lemma group_keys_strict: "sorted_wrt (<) (group_keys key df)"
  by (simp add: group_keys_def strict_sorted_iff)

lemma set_group_keys: "set (group_keys key df) = key ` set df"
  by (simp add: group_keys_def)

lemma nth_less_imp_less:
  fixes ks :: "'k::linorder list"
  assumes "sorted_wrt (<) ks" and "i < length ks" and "j < length ks" and "ks ! j < ks ! i"
  shows "j < i"
proof (rule ccontr)
  assume "\<not> j < i"
  then have "i = j \<or> i < j" by auto
  then show False
  proof
    assume "i = j"
    with assms(4) show False by simp
  next
    assume "i < j"
    with assms(1,3) have "ks ! i < ks ! j" by (simp add: sorted_wrt_nth_less)
    with assms(4) show False by simp
  qed
qed

lemma last_valid_last:
  assumes "xs \<noteq> []" and "last xs \<noteq> NaN"
  shows "last_valid xs = last xs"
proof -
  from assms(1) obtain ys z where "xs = ys @ [z]" by (metis rev_exhaust)
  with assms(2) show ?thesis by (simp add: last_valid_def)
qed


subsection \<open>The retained frame\<close>




lemmas metric_defs =
  Let_def compute_metrics_def diff_overflows_def out_of_range_def with_rates_def
  time_diff_minutes_def balance_diff_def with_hour_def finite_result_def overflow_bound_def

text \<open>What \<^verbatim>\<open>compute_metrics\<close> returns when it returns, and the one exception it raises.\<close>

lemma compute_metrics_Inr:
  assumes "compute_metrics df = Inr (cm, hg)"
  shows "cm = map with_hour (filter (\<lambda>r. flt (Time_Diff_Minutes r) (Fin 120))
               (map2 with_rates df (groupby_shift Peer_ID [] df)))"
    and "hg = hourly_growth cm"
  using assms by (auto simp: compute_metrics_def Let_def split: if_splits)

lemma compute_metrics_Inl:
  assumes "compute_metrics df = Inl e"
  shows "e = Raised ''OverflowError''"
  using assms by (auto simp: compute_metrics_def Let_def split: if_splits)

text \<open>Every retained row is a row of the frame with its four log columns unchanged.\<close>

lemma retained_from_frame:
  assumes "compute_metrics df = Inr (cm, hg)" and "m \<in> set cm"
  shows "\<exists>r \<in> set df. Date m = Date r \<and> Peer_ID m = Peer_ID r \<and> Balance m = Balance r \<and>
           Hostname m = Hostname r"
proof -
  from assms(2) obtain r p where "(r, p) \<in> set (zip df (groupby_shift Peer_ID [] df))"
    and "m = with_hour (with_rates r p)"
    unfolding compute_metrics_Inr(1) [OF assms(1)] by auto
  then show ?thesis
    by (auto simp: with_hour_def with_rates_def dest: set_zip_leftD)
qed


text \<open>
  A record with no previous record of its identifier gets the rate 0 on line 28, and
  the time difference \<^verbatim>\<open>NaN\<close>, which fails the comparison of line 31: the record is
  not retained.
\<close>

lemma first_record_rate: "Quil_Per_Minute (with_rates r None) = Fin 0"
  by (simp add: with_rates_def time_diff_minutes_def balance_diff_def)

lemma first_record_fails_filter: "\<not> flt (Time_Diff_Minutes (with_rates r None)) (Fin 120)"
  by (simp add: with_rates_def time_diff_minutes_def)

lemma single_record_not_retained: "compute_metrics [r] = Inr ([], [])"
  by (simp add: metric_defs hourly_growth_def group_keys_def)

text \<open>
  A record with a previous record of its identifier is retained exactly when less
  than 120 minutes lie between the two.
\<close>

lemma later_record_retained_iff:
  "flt (Time_Diff_Minutes (with_rates r (Some q))) (Fin 120) \<longleftrightarrow>
     Date r - Date q < 120 * 60 * 1000000000"
proof -
  have "real_of_int (Date r - Date q) < real_of_int 7200000000000 \<longleftrightarrow>
      Date r - Date q < 7200000000000"
    by (rule of_int_less_iff)
  then show ?thesis
    by (auto simp: with_rates_def time_diff_minutes_def finite_result_def overflow_bound_def)
qed

subsection \<open>Metric derivation\<close>

text \<open>
  Claim C6. One identifier with exactly two records, the first at any time \<open>t0\<close> with
  balance 10 and the second ten minutes (\<open>600000000000\<close> nanoseconds) later with
  balance 15: \<^verbatim>\<open>compute_metrics\<close> returns, and the frame it returns holds the second
  record with an elapsed time of 10 minutes, the per-minute rate 0.5 and the hourly
  rate 30.
\<close>

theorem second_record_rate:
  "map_sum (\<lambda>e. e) fst (compute_metrics
     [\<lparr>Date = t0, Peer_ID = p, Balance = Fin 10, Hostname = h0\<rparr>,
      \<lparr>Date = t0 + 600000000000, Peer_ID = p, Balance = Fin 15, Hostname = h1\<rparr>]) =
   Inr [\<lparr>Date = t0 + 600000000000, Peer_ID = p, Balance = Fin 15, Hostname = h1,
     Time_Diff_Minutes = Fin 10, Quil_Per_Minute = Fin (1 / 2), Quil_Per_Hour = Fin 30,
     Hour = floor_hour (t0 + 600000000000)\<rparr>]"
  by (simp add: metric_defs)

text \<open>
  Claim C2 says that the first record of every identifier is retained with rate 0 and
  that a record is excluded exactly when 120 minutes or more have passed since the
  previous record of its identifier. The code at three records of one identifier,
  at 0, 30 and 210 minutes: the third is excluded for its gap of 180 minutes, and the
  first is excluded as well, because its time difference is \<^verbatim>\<open>NaN\<close> and line 31
  keeps a row only if \<^verbatim>\<open>Time_Diff_Minutes < 120\<close> is true. Only the second record is
  left.
\<close>

theorem first_record_is_not_retained:
  "map_sum (\<lambda>e. e) (\<lambda>m. map Date (fst m)) (compute_metrics
     [\<lparr>Date = 0, Peer_ID = ''Qa'', Balance = Fin 1, Hostname = Some ''alpha''\<rparr>,
      \<lparr>Date = 1800000000000, Peer_ID = ''Qa'', Balance = Fin 2, Hostname = Some ''alpha''\<rparr>,
      \<lparr>Date = 12600000000000, Peer_ID = ''Qa'', Balance = Fin 3, Hostname = Some ''alpha''\<rparr>]) =
   Inr [1800000000000]"
  by (simp add: metric_defs)

text \<open>
  Claim C9 says that a rate whose elapsed time is zero is 0. The code at two records
  of one identifier with the same timestamp and the balances 10 and 15: the
  difference 5 is divided by 0, which in a float column is \<^verbatim>\<open>inf\<close> and not \<^verbatim>\<open>NaN\<close>, so
  \<^verbatim>\<open>fillna(0)\<close> leaves it, and the row passes the filter of line 31 (0 is below 120).
  No exception is raised.
\<close>

theorem rate_at_equal_timestamps_is_infinite:
  "map_sum (\<lambda>e. e) (\<lambda>m. map Quil_Per_Minute (fst m)) (compute_metrics
     [\<lparr>Date = t, Peer_ID = p, Balance = Fin 10, Hostname = h0\<rparr>,
      \<lparr>Date = t, Peer_ID = p, Balance = Fin 15, Hostname = h1\<rparr>]) = Inr [PInf]"
  by (simp add: metric_defs)

text \<open>
  Two records of one identifier more than \<open>2\<^sup>6\<^sup>3\<close> nanoseconds apart: line 26 raises.
\<close>

lemma overflow_example:
  "compute_metrics
     [\<lparr>Date = - 5000000000000000000, Peer_ID = ''Qa'', Balance = Fin 1, Hostname = None\<rparr>,
      \<lparr>Date = 5000000000000000000, Peer_ID = ''Qa'', Balance = Fin 2, Hostname = None\<rparr>] =
   Inl (Raised ''OverflowError'')"
  by (simp add: metric_defs)

subsection \<open>The hourly rollup\<close>

lemma length_hourly_growth:
  "length (hourly_growth df) = length (group_keys (\<lambda>r. (Peer_ID r, Hour r)) df)"
  by (simp add: hourly_growth_def Let_def length_groupby_shift)

lemma hourly_growth_nth:
  assumes "i < length (group_keys (\<lambda>r. (Peer_ID r, Hour r)) df)"
  defines "lb \<equiv> map (\<lambda>k. (k, last_valid (map Balance (bucket df k))))
                   (group_keys (\<lambda>r. (Peer_ID r, Hour r)) df)"
  shows "hourly_growth df ! i =
     \<lparr>h_Peer_ID = fst (fst (lb ! i)), h_Hour = snd (fst (lb ! i)), h_Balance = snd (lb ! i),
      h_Growth = growth (lb ! i) (groupby_shift (\<lambda>b. fst (fst b)) [] lb ! i),
      h_Quil_Per_Hour = growth (lb ! i) (groupby_shift (\<lambda>b. fst (fst b)) [] lb ! i)\<rparr>"
  using assms(1) unfolding lb_def
  by (simp add: hourly_growth_def Let_def length_groupby_shift)

lemma hourly_growth_fields:
  assumes "i < length (hourly_growth df)"
  defines "ks \<equiv> group_keys (\<lambda>r. (Peer_ID r, Hour r)) df"
  shows "h_Peer_ID (hourly_growth df ! i) = fst (ks ! i)"
    and "h_Hour (hourly_growth df ! i) = snd (ks ! i)"
    and "h_Balance (hourly_growth df ! i) = last_valid (map Balance (bucket df (ks ! i)))"
    and "h_Quil_Per_Hour (hourly_growth df ! i) = h_Growth (hourly_growth df ! i)"
  using assms(1) unfolding ks_def
  by (simp_all add: length_hourly_growth hourly_growth_nth)

text \<open>The rollup has one row for every bucket that holds a row of the frame.\<close>

lemma hourly_growth_buckets:
  "map (\<lambda>h. (h_Peer_ID h, h_Hour h)) (hourly_growth df) =
     group_keys (\<lambda>r. (Peer_ID r, Hour r)) df"
  by (rule nth_equalityI) (simp_all add: length_hourly_growth hourly_growth_fields(1,2))

text \<open>A bucket with no earlier bucket of its identifier has growth 0.\<close>

lemma hourly_growth_first:
  assumes "i < length (hourly_growth df)"
    and "\<forall>j<i. h_Peer_ID (hourly_growth df ! j) \<noteq> h_Peer_ID (hourly_growth df ! i)"
  shows "h_Growth (hourly_growth df ! i) = Fin 0"
proof -
  let ?ks = "group_keys (\<lambda>r. (Peer_ID r, Hour r)) df"
  let ?lb = "map (\<lambda>k. (k, last_valid (map Balance (bucket df k)))) ?ks"
  from assms(1) have i: "i < length ?ks" by (simp add: length_hourly_growth)
  have "\<forall>j<i. fst (fst (?lb ! j)) \<noteq> fst (fst (?lb ! i))"
  proof (intro allI impI)
    fix j assume "j < i"
    with assms i show "fst (fst (?lb ! j)) \<noteq> fst (fst (?lb ! i))"
      by (simp add: hourly_growth_fields(1))
  qed
  with i have "groupby_shift (\<lambda>b. fst (fst b)) [] ?lb ! i = None"
    by (intro shift_first) simp_all
  with i show ?thesis by (simp add: hourly_growth_nth growth_def)
qed

text \<open>
  Otherwise the growth is the difference to the nearest earlier bucket of the
  identifier, with a missing difference filled with 0.
\<close>

lemma hourly_growth_previous:
  assumes "i < length (hourly_growth df)" and "j < i"
    and "h_Peer_ID (hourly_growth df ! j) = h_Peer_ID (hourly_growth df ! i)"
    and "\<forall>k. j < k \<and> k < i \<longrightarrow>
           h_Peer_ID (hourly_growth df ! k) \<noteq> h_Peer_ID (hourly_growth df ! i)"
  shows "h_Growth (hourly_growth df ! i) =
           fillna (Fin 0)
             (fsub (h_Balance (hourly_growth df ! i)) (h_Balance (hourly_growth df ! j)))"
proof -
  let ?ks = "group_keys (\<lambda>r. (Peer_ID r, Hour r)) df"
  let ?lb = "map (\<lambda>k. (k, last_valid (map Balance (bucket df k)))) ?ks"
  from assms(1) have i: "i < length ?ks" by (simp add: length_hourly_growth)
  with assms(2) have j: "j < length ?ks" by simp
  have same: "fst (fst (?lb ! j)) = fst (fst (?lb ! i))"
    using assms(1,2,3) i j by (simp add: hourly_growth_fields(1))
  have between: "\<forall>k. j < k \<and> k < i \<longrightarrow> fst (fst (?lb ! k)) \<noteq> fst (fst (?lb ! i))"
  proof (intro allI impI)
    fix k assume "j < k \<and> k < i"
    with assms(1,4) i show "fst (fst (?lb ! k)) \<noteq> fst (fst (?lb ! i))"
      by (simp add: hourly_growth_fields(1))
  qed
  from i assms(2) same between
  have "groupby_shift (\<lambda>b. fst (fst b)) [] ?lb ! i = Some (?lb ! j)"
    by (intro shift_previous) simp_all
  with i j show ?thesis by (simp add: hourly_growth_nth growth_def)
qed

text \<open>The buckets of one identifier stand in the order of their hours.\<close>

lemma hourly_growth_sorted:
  assumes "i < length (hourly_growth df)" and "j < i"
    and "h_Peer_ID (hourly_growth df ! j) = h_Peer_ID (hourly_growth df ! i)"
  shows "h_Hour (hourly_growth df ! j) < h_Hour (hourly_growth df ! i)"
proof -
  let ?ks = "group_keys (\<lambda>r. (Peer_ID r, Hour r)) df"
  from assms(1) have i: "i < length ?ks" by (simp add: length_hourly_growth)
  with assms(2) have "?ks ! j < ?ks ! i"
    using group_keys_strict [of "\<lambda>r. (Peer_ID r, Hour r)" df] by (simp add: sorted_wrt_nth_less)
  moreover from assms have "fst (?ks ! j) = fst (?ks ! i)"
    by (simp add: hourly_growth_fields(1))
  ultimately have "snd (?ks ! j) < snd (?ks ! i)" by (simp add: less_prod_def)
  with assms show ?thesis by (simp add: hourly_growth_fields(2))
qed

lemma hourly_growth_position:
  assumes "i < length (hourly_growth df)" and "j < length (hourly_growth df)"
    and "h_Peer_ID (hourly_growth df ! j) = h_Peer_ID (hourly_growth df ! i)"
    and "h_Hour (hourly_growth df ! j) < h_Hour (hourly_growth df ! i)"
  shows "j < i"
proof -
  let ?ks = "group_keys (\<lambda>r. (Peer_ID r, Hour r)) df"
  from assms have "?ks ! j < ?ks ! i"
    by (simp add: hourly_growth_fields(1,2) less_prod_def)
  with assms(1,2) show ?thesis
    using group_keys_strict [of "\<lambda>r. (Peer_ID r, Hour r)" df]
    by (auto intro: nth_less_imp_less [of ?ks _ j] simp: length_hourly_growth)
qed

text \<open>Every row of the rollup stands for a bucket that holds a row of the frame.\<close>

lemma hourly_growth_bucket_nonempty:
  assumes "h \<in> set (hourly_growth df)"
  shows "bucket df (h_Peer_ID h, h_Hour h) \<noteq> []"
proof -
  have "(h_Peer_ID h, h_Hour h) \<in> set (map (\<lambda>h. (h_Peer_ID h, h_Hour h)) (hourly_growth df))"
    using assms by auto
  then have "(h_Peer_ID h, h_Hour h) \<in> (\<lambda>r. (Peer_ID r, Hour r)) ` set df"
    by (simp only: hourly_growth_buckets set_group_keys)
  then obtain r where "r \<in> set df" "(Peer_ID r, Hour r) = (h_Peer_ID h, h_Hour h)" by auto
  then have "r \<in> set (bucket df (h_Peer_ID h, h_Hour h))" by (simp add: bucket_def)
  then show ?thesis by auto
qed

text \<open>
  The rollup over the working frame. When \<^verbatim>\<open>compute_metrics\<close> returns the working
  frame \<open>cm\<close> and the rollup \<open>hg\<close>, the rollup has exactly one row for every bucket
  (identifier and hour) that holds a row of \<open>cm\<close>, in ascending order of identifier
  and hour. The balance of a row \<open>h\<close> is the last balance of its bucket that is not
  missing, so the balance of the last row of the bucket if that row has one. If no
  bucket of the identifier has an earlier hour, the growth is 0, whatever the
  balance. If \<open>g\<close> is the previous bucket of the identifier (an earlier hour, and no
  bucket of the identifier between the two), the growth is the balance of \<open>h\<close> minus
  the balance of \<open>g\<close>, as doubles are subtracted, and 0 where that difference is
  \<^verbatim>\<open>NaN\<close>. The column \<^verbatim>\<open>Quil_Per_Hour\<close> of the rollup is the growth.
\<close>

lemma hourly_rollup_of_working_frame:
  assumes "compute_metrics df = Inr (cm, hg)"
  shows
    "sorted_wrt (<) (map (\<lambda>h. (h_Peer_ID h, h_Hour h)) hg) \<and>
     set (map (\<lambda>h. (h_Peer_ID h, h_Hour h)) hg) = (\<lambda>r. (Peer_ID r, Hour r)) ` set cm \<and>
     (\<forall>h \<in> set hg.
        bucket cm (h_Peer_ID h, h_Hour h) \<noteq> [] \<and>
        h_Balance h = last_valid (map Balance (bucket cm (h_Peer_ID h, h_Hour h))) \<and>
        (Balance (last (bucket cm (h_Peer_ID h, h_Hour h))) \<noteq> NaN \<longrightarrow>
           h_Balance h = Balance (last (bucket cm (h_Peer_ID h, h_Hour h)))) \<and>
        h_Quil_Per_Hour h = h_Growth h \<and>
        ((\<forall>g \<in> set hg. h_Peer_ID g = h_Peer_ID h \<longrightarrow> h_Hour h \<le> h_Hour g)
           \<longrightarrow> h_Growth h = Fin 0) \<and>
        (\<forall>g \<in> set hg.
           h_Peer_ID g = h_Peer_ID h \<and> h_Hour g < h_Hour h \<and>
           (\<forall>g' \<in> set hg.
              h_Peer_ID g' = h_Peer_ID h \<longrightarrow> h_Hour g' \<le> h_Hour g \<or> h_Hour h \<le> h_Hour g')
           \<longrightarrow> h_Growth h = fillna (Fin 0) (fsub (h_Balance h) (h_Balance g))))"
proof -
  let ?hg = "hourly_growth cm"
  have hg: "hg = ?hg" using assms by (rule compute_metrics_Inr(2))
  have keys: "map (\<lambda>h. (h_Peer_ID h, h_Hour h)) ?hg = group_keys (\<lambda>r. (Peer_ID r, Hour r)) cm"
    by (rule hourly_growth_buckets)
  have order: "sorted_wrt (<) (map (\<lambda>h. (h_Peer_ID h, h_Hour h)) ?hg)"
    by (simp only: keys group_keys_strict)
  have cover: "set (map (\<lambda>h. (h_Peer_ID h, h_Hour h)) ?hg) = (\<lambda>r. (Peer_ID r, Hour r)) ` set cm"
    by (simp only: keys set_group_keys)
  have row:
    "bucket cm (h_Peer_ID h, h_Hour h) \<noteq> [] \<and>
     h_Balance h = last_valid (map Balance (bucket cm (h_Peer_ID h, h_Hour h))) \<and>
     (Balance (last (bucket cm (h_Peer_ID h, h_Hour h))) \<noteq> NaN \<longrightarrow>
        h_Balance h = Balance (last (bucket cm (h_Peer_ID h, h_Hour h)))) \<and>
     h_Quil_Per_Hour h = h_Growth h \<and>
     ((\<forall>g \<in> set ?hg. h_Peer_ID g = h_Peer_ID h \<longrightarrow> h_Hour h \<le> h_Hour g)
        \<longrightarrow> h_Growth h = Fin 0) \<and>
     (\<forall>g \<in> set ?hg.
        h_Peer_ID g = h_Peer_ID h \<and> h_Hour g < h_Hour h \<and>
        (\<forall>g' \<in> set ?hg.
           h_Peer_ID g' = h_Peer_ID h \<longrightarrow> h_Hour g' \<le> h_Hour g \<or> h_Hour h \<le> h_Hour g')
        \<longrightarrow> h_Growth h = fillna (Fin 0) (fsub (h_Balance h) (h_Balance g)))"
    if mem: "h \<in> set ?hg" for h
  proof -
    from mem obtain i where i: "i < length ?hg" and h: "h = ?hg ! i"
      by (auto simp: in_set_conv_nth)
    let ?b = "bucket cm (h_Peer_ID h, h_Hour h)"
    from mem have ne: "?b \<noteq> []" by (rule hourly_growth_bucket_nonempty)
    have bal: "h_Balance h = last_valid (map Balance ?b)"
      using i by (simp add: h hourly_growth_fields)
    have bal_last: "h_Balance h = Balance (last ?b)" if "Balance (last ?b) \<noteq> NaN"
      using ne that by (simp add: bal last_valid_last last_map)
    have first: "h_Growth h = Fin 0"
      if *: "\<forall>g \<in> set ?hg. h_Peer_ID g = h_Peer_ID h \<longrightarrow> h_Hour h \<le> h_Hour g"
    proof -
      have "\<forall>j<i. h_Peer_ID (?hg ! j) \<noteq> h_Peer_ID (?hg ! i)"
      proof (intro allI impI notI)
        fix j assume j: "j < i" and same: "h_Peer_ID (?hg ! j) = h_Peer_ID (?hg ! i)"
        from hourly_growth_sorted [OF i j same] have "h_Hour (?hg ! j) < h_Hour h"
          by (simp add: h)
        moreover from i j have "?hg ! j \<in> set ?hg" by simp
        with * same have "h_Hour h \<le> h_Hour (?hg ! j)" by (simp add: h)
        ultimately show False by simp
      qed
      with i show ?thesis unfolding h by (rule hourly_growth_first)
    qed
    have previous: "h_Growth h = fillna (Fin 0) (fsub (h_Balance h) (h_Balance g))"
      if g: "g \<in> set ?hg" and same: "h_Peer_ID g = h_Peer_ID h" and less: "h_Hour g < h_Hour h"
        and none: "\<forall>g' \<in> set ?hg. h_Peer_ID g' = h_Peer_ID h \<longrightarrow>
                     h_Hour g' \<le> h_Hour g \<or> h_Hour h \<le> h_Hour g'" for g
    proof -
      from g obtain j where j: "j < length ?hg" and gj: "g = ?hg ! j"
        by (auto simp: in_set_conv_nth)
      from same less have ji: "j < i"
        unfolding h gj by (rule hourly_growth_position [OF i j])
      have between: "\<forall>k. j < k \<and> k < i \<longrightarrow> h_Peer_ID (?hg ! k) \<noteq> h_Peer_ID (?hg ! i)"
      proof (intro allI impI notI)
        fix k assume k: "j < k \<and> k < i" and eq: "h_Peer_ID (?hg ! k) = h_Peer_ID (?hg ! i)"
        from k i have kl: "k < length ?hg" by simp
        from k have "k < i" by simp
        from hourly_growth_sorted [OF i this eq] have 1: "h_Hour (?hg ! k) < h_Hour h"
          by (simp add: h)
        from same eq have "h_Peer_ID (?hg ! j) = h_Peer_ID (?hg ! k)" by (simp add: h gj)
        moreover from k have "j < k" by simp
        ultimately have 2: "h_Hour g < h_Hour (?hg ! k)"
          unfolding gj using kl by (intro hourly_growth_sorted)
        from kl have "?hg ! k \<in> set ?hg" by simp
        with none eq have "h_Hour (?hg ! k) \<le> h_Hour g \<or> h_Hour h \<le> h_Hour (?hg ! k)"
          by (simp add: h)
        with 1 2 show False by auto
      qed
      from same have "h_Peer_ID (?hg ! j) = h_Peer_ID (?hg ! i)" by (simp add: h gj)
      from hourly_growth_previous [OF i ji this between] show ?thesis
        by (simp add: h gj)
    qed
    from i have "h_Quil_Per_Hour h = h_Growth h"
      unfolding h by (rule hourly_growth_fields(4))
    with ne bal bal_last first previous show ?thesis by blast
  qed
  from order cover row show ?thesis unfolding hg by blast
qed

lemmas rollup_defs =
  hourly_growth_def group_keys_def bucket_def last_valid_def growth_def floor_hour_def

text \<open>
  The rollup of two identifiers: \<^verbatim>\<open>Qa\<close> with records at 0, 10 and 70 minutes and
  \<^verbatim>\<open>Qb\<close> with records at 1 and 11 minutes. The working frame holds the records at 10,
  11 and 70 minutes, and the second bucket of \<^verbatim>\<open>Qa\<close> has the growth 18 - 15.
\<close>

lemma hourly_rollup_of_working_frame_example:
  "\<exists>cm. compute_metrics
      [\<lparr>Date = 0, Peer_ID = ''Qa'', Balance = Fin 10, Hostname = Some ''alpha''\<rparr>,
       \<lparr>Date = 60000000000, Peer_ID = ''Qb'', Balance = Fin 1, Hostname = Some ''beta''\<rparr>,
       \<lparr>Date = 600000000000, Peer_ID = ''Qa'', Balance = Fin 15, Hostname = Some ''alpha''\<rparr>,
       \<lparr>Date = 660000000000, Peer_ID = ''Qb'', Balance = Fin 2, Hostname = Some ''beta''\<rparr>,
       \<lparr>Date = 4200000000000, Peer_ID = ''Qa'', Balance = Fin 18, Hostname = Some ''alpha''\<rparr>] =
     Inr (cm,
       [\<lparr>h_Peer_ID = ''Qa'', h_Hour = 0, h_Balance = Fin 15, h_Growth = Fin 0,
          h_Quil_Per_Hour = Fin 0\<rparr>,
        \<lparr>h_Peer_ID = ''Qa'', h_Hour = 3600000000000, h_Balance = Fin 18, h_Growth = Fin 3,
          h_Quil_Per_Hour = Fin 3\<rparr>,
        \<lparr>h_Peer_ID = ''Qb'', h_Hour = 0, h_Balance = Fin 2, h_Growth = Fin 0,
          h_Quil_Per_Hour = Fin 0\<rparr>]) \<and>
     map Date cm = [600000000000, 660000000000, 4200000000000] \<and>
     Fin 3 = fillna (Fin 0) (fsub (Fin 18) (Fin 15))"
proof -
  let ?df = "[\<lparr>Date = 0, Peer_ID = ''Qa'', Balance = Fin 10, Hostname = Some ''alpha''\<rparr>,
       \<lparr>Date = 60000000000, Peer_ID = ''Qb'', Balance = Fin 1, Hostname = Some ''beta''\<rparr>,
       \<lparr>Date = 600000000000, Peer_ID = ''Qa'', Balance = Fin 15, Hostname = Some ''alpha''\<rparr>,
       \<lparr>Date = 660000000000, Peer_ID = ''Qb'', Balance = Fin 2, Hostname = Some ''beta''\<rparr>,
       \<lparr>Date = 4200000000000, Peer_ID = ''Qa'', Balance = Fin 18, Hostname = Some ''alpha''\<rparr>]"
  let ?h1 = "\<lparr>h_Peer_ID = ''Qa'', h_Hour = 0, h_Balance = Fin 15, h_Growth = Fin 0,
          h_Quil_Per_Hour = Fin 0\<rparr>"
  let ?h2 = "\<lparr>h_Peer_ID = ''Qa'', h_Hour = 3600000000000, h_Balance = Fin 18, h_Growth = Fin 3,
          h_Quil_Per_Hour = Fin 3\<rparr>"
  let ?h3 = "\<lparr>h_Peer_ID = ''Qb'', h_Hour = 0, h_Balance = Fin 2, h_Growth = Fin 0,
          h_Quil_Per_Hour = Fin 0\<rparr>"
  obtain cm where run: "compute_metrics ?df = Inr (cm, [?h1, ?h2, ?h3])"
    and dates: "map Date cm = [600000000000, 660000000000, 4200000000000]"
    by (simp add: metric_defs rollup_defs)
  note rows = hourly_rollup_of_working_frame [OF run, THEN conjunct2, THEN conjunct2]
  have "?h2 \<in> set [?h1, ?h2, ?h3]" by simp
  note row = bspec [OF rows this]
  note previous = row [THEN conjunct2, THEN conjunct2, THEN conjunct2, THEN conjunct2,
    THEN conjunct2]
  have "?h1 \<in> set [?h1, ?h2, ?h3]" by simp
  note step = bspec [OF previous this]
  have "h_Growth ?h2 = fillna (Fin 0) (fsub (h_Balance ?h2) (h_Balance ?h1))"
    by (rule mp [OF step]) simp
  then have growth: "Fin 3 = fillna (Fin 0) (fsub (Fin 18) (Fin 15))"
    by (simp only: hrow.select_convs)
  show ?thesis by (rule exI [of _ cm]) (intro conjI run dates growth)
qed

text \<open>
  A bucket whose only balance is missing: its own growth and the growth of the next
  bucket are undefined differences, and line 39 reports 0 for both.
\<close>

lemma growth_after_missing_balance_is_zero:
  "map_sum (\<lambda>e. e) snd (compute_metrics
      [\<lparr>Date = 0, Peer_ID = ''Qa'', Balance = Fin 10, Hostname = Some ''alpha''\<rparr>,
       \<lparr>Date = 600000000000, Peer_ID = ''Qa'', Balance = Fin 15, Hostname = Some ''alpha''\<rparr>,
       \<lparr>Date = 4200000000000, Peer_ID = ''Qa'', Balance = NaN, Hostname = Some ''alpha''\<rparr>,
       \<lparr>Date = 7800000000000, Peer_ID = ''Qa'', Balance = Fin 18, Hostname = Some ''alpha''\<rparr>]) =
   Inr [\<lparr>h_Peer_ID = ''Qa'', h_Hour = 0, h_Balance = Fin 15, h_Growth = Fin 0,
          h_Quil_Per_Hour = Fin 0\<rparr>,
        \<lparr>h_Peer_ID = ''Qa'', h_Hour = 3600000000000, h_Balance = NaN, h_Growth = Fin 0,
          h_Quil_Per_Hour = Fin 0\<rparr>,
        \<lparr>h_Peer_ID = ''Qa'', h_Hour = 7200000000000, h_Balance = Fin 18, h_Growth = Fin 0,
          h_Quil_Per_Hour = Fin 0\<rparr>]"
  by (simp add: metric_defs rollup_defs)

text \<open>
  Claim C7 says that the growth of a bucket is the last balance observed in it minus
  the last balance of the identifier's previous bucket, and 0 for the first bucket.
  The code at three records of one identifier, at 0, 70 and 130 minutes with the
  balances 10, 15 and 18, one in each of three hours: the record at 0 minutes is not
  retained (its time difference is \<^verbatim>\<open>NaN\<close>, line 31), so the rollup has no row for the
  first hour, and the row of the second hour reports the growth 0, not 15 - 10. Only
  the third hour has the growth the claim describes, 18 - 15.
\<close>

theorem rollup_misses_first_record_hour:
  "map_sum (\<lambda>e. e) snd (compute_metrics
      [\<lparr>Date = 0, Peer_ID = ''Qa'', Balance = Fin 10, Hostname = Some ''alpha''\<rparr>,
       \<lparr>Date = 4200000000000, Peer_ID = ''Qa'', Balance = Fin 15, Hostname = Some ''alpha''\<rparr>,
       \<lparr>Date = 7800000000000, Peer_ID = ''Qa'', Balance = Fin 18, Hostname = Some ''alpha''\<rparr>]) =
   Inr [\<lparr>h_Peer_ID = ''Qa'', h_Hour = 3600000000000, h_Balance = Fin 15, h_Growth = Fin 0,
          h_Quil_Per_Hour = Fin 0\<rparr>,
        \<lparr>h_Peer_ID = ''Qa'', h_Hour = 7200000000000, h_Balance = Fin 18, h_Growth = Fin 3,
          h_Quil_Per_Hour = Fin 3\<rparr>]"
  by (simp add: metric_defs rollup_defs)

subsection \<open>The report\<close>

lemmas report_defs =
  index_def load_file_def endswith_def groupby_last_def hostname_last_def group_keys_def
  to_records_def group_of_def last_valid_def last_some_def

text \<open>
  Claim C1 says that the latest-state table has one row for every identifier that
  appears in a log. The code at two logs, one of identifier \<^verbatim>\<open>Qa\<close> with two records
  ten minutes apart and one of identifier \<^verbatim>\<open>Qb\<close> with a single record (\<open>read_csv\<close>
  gives the first frame for the text of the first file and the second for the other;
  all timestamps differ, so every sort by date gives the same order): the table has
  the one row of \<^verbatim>\<open>Qa\<close>. The only record of \<^verbatim>\<open>Qb\<close> is the first of its identifier,
  and line 31 drops it (its time difference is \<^verbatim>\<open>NaN\<close>), so \<^verbatim>\<open>Qb\<close> has no row.
\<close>

theorem latest_table_omits_single_record_identifier:
  "map_sum (\<lambda>e. e) table_data
     (index
        (\<lambda>contents. if contents = ''a'' then
             Inr [\<lparr>Date = 0, Peer_ID = ''Qa'', Balance = Fin 10, Hostname = Some ''alpha''\<rparr>,
                  \<lparr>Date = 600000000000, Peer_ID = ''Qa'', Balance = Fin 15,
                    Hostname = Some ''alpha''\<rparr>]
           else
             Inr [\<lparr>Date = 60000000000, Peer_ID = ''Qb'', Balance = Fin 7,
                    Hostname = Some ''beta''\<rparr>])
        (sort_key Date)
        (Directory [(''node_balance_Qa.csv'', ''a''), (''node_balance_Qb.csv'', ''b'')])
        None) =
   Inr [\<lparr>t_index = 0, t_Hostname = Some ''alpha'', t_Balance = Fin 15,
         t_Quil_Per_Minute = Fin (1 / 2), t_Quil_Per_Hour = Fin 30\<rparr>]"
  by (simp add: report_defs metric_defs)

lemma load_frames_no_csv:
  "filter (\<lambda>n. endswith n ''.csv'') names = [] \<Longrightarrow> load_frames read_csv st names = Inr []"
  by (induction names) (auto split: if_splits)

text \<open>
  Claim C3, as amended: when the storage directory can be listed and none of its
  names ends in \<^verbatim>\<open>.csv\<close>, the report hands the template an empty table and two empty
  chart placeholders, whatever the theme argument. (Nothing is said here about a
  directory that cannot be listed.)
\<close>

theorem no_logs_give_empty_dashboard:
  "listdir st = Inr names \<Longrightarrow> filter (\<lambda>n. endswith n ''.csv'') names = [] \<Longrightarrow>
   index read_csv sort_values st arg =
     Inr \<lparr>template_name = ''index.html'', table_data = [], balance_graph_html = Html [],
          quil_minute_graph_html = Html [],
          night_mode = (case arg of None \<Rightarrow> ''off'' | Some v \<Rightarrow> v)\<rparr>"
  by (simp add: index_def load_frames_no_csv)

text \<open>The theorem at a directory that holds one file that is no log.\<close>

theorem no_logs_give_empty_dashboard_witness:
  "listdir (Directory [(''notes.txt'', ''to do'')]) = Inr [''notes.txt''] \<and>
   filter (\<lambda>n. endswith n ''.csv'') [''notes.txt''] = [] \<and>
   index (\<lambda>contents. Inl KeyError) (sort_key Date) (Directory [(''notes.txt'', ''to do'')])
       (Some ''on'') =
     Inr \<lparr>template_name = ''index.html'', table_data = [], balance_graph_html = Html [],
          quil_minute_graph_html = Html [], night_mode = ''on''\<rparr>"
proof -
  have a: "listdir (Directory [(''notes.txt'', ''to do'')]) = Inr [''notes.txt'']" by simp
  have b: "filter (\<lambda>n. endswith n ''.csv'') [''notes.txt''] = []" by (simp add: endswith_def)
  from no_logs_give_empty_dashboard [OF a b, of "\<lambda>contents. Inl KeyError" "sort_key Date" "Some ''on''"]
    a b
  show ?thesis by simp
qed

text \<open>
  Claim C3 as stated fails for a missing directory: \<^verbatim>\<open>os.listdir\<close> raises on line 83,
  nothing catches the exception, and no dashboard is rendered.
\<close>

theorem missing_directory_raises:
  "index (\<lambda>contents. Inr []) (sort_key Date) Missing None = Inl FileNotFoundError"
  by (simp add: index_def)

text \<open>
  Claim C4 says that both endpoints catch every exception. \<^verbatim>\<open>update_balance\<close> does
  (its \<^verbatim>\<open>try\<close> covers the whole body), \<^verbatim>\<open>index\<close> has no \<^verbatim>\<open>try\<close>: with one empty log file
  in the directory, for which the CSV parser raises \<^verbatim>\<open>EmptyDataError\<close>, the exception
  leaves the handler.
\<close>

theorem index_propagates_exception:
  "index (\<lambda>contents. if contents = [] then Inl (Raised ''EmptyDataError'') else Inr [])
     (sort_key Date) (Directory [(''node_balance_Qa.csv'', [])]) None =
   Inl (Raised ''EmptyDataError'')"
  by (simp add: index_def load_file_def endswith_def)

text \<open>The ingestion endpoint always answers with one of its three responses.\<close>

lemma update_balance_responses:
  "snd (update_balance fmt st get_json) \<in>
     {(''Balance updated'', 200), (''Invalid data'', 400), (''Internal Server Error'', 500)}"
  by (auto simp: update_balance_def try_update_balance_def log_balance_def write_log_def
      split: sum.splits prod.splits if_splits)





text \<open>An overflow on line 26 leaves the report as it leaves \<^verbatim>\<open>compute_metrics\<close>.\<close>

lemma index_propagates_overflow:
  assumes "listdir st = Inr names" and "load_frames read_csv st names = Inr data_frames"
    and "data_frames \<noteq> []"
    and "compute_metrics (sort_values (concat data_frames)) = Inl e"
  shows "index read_csv sort_values st arg = Inl (Raised ''OverflowError'')"
  using assms compute_metrics_Inl [OF assms(4)] by (simp add: index_def Let_def)




text \<open>
  A last retained record without an origin label: the row carries the label of the
  record before it, and the balance and rates of the last one.
\<close>

lemma missing_label_is_passed_over:
  "map_sum (\<lambda>e. e) table_data
     (index
        (\<lambda>contents.
           Inr [\<lparr>Date = 0, Peer_ID = ''Qa'', Balance = Fin 10, Hostname = Some ''alpha''\<rparr>,
                \<lparr>Date = 600000000000, Peer_ID = ''Qa'', Balance = Fin 15,
                  Hostname = Some ''alpha''\<rparr>,
                \<lparr>Date = 1200000000000, Peer_ID = ''Qa'', Balance = Fin 16, Hostname = None\<rparr>])
        (sort_key Date) (Directory [(''node_balance_Qa.csv'', ''a'')]) None) =
   Inr [\<lparr>t_index = 0, t_Hostname = Some ''alpha'', t_Balance = Fin 16,
         t_Quil_Per_Minute = Fin (1 / 10), t_Quil_Per_Hour = Fin 6\<rparr>]"
  by (simp add: report_defs metric_defs)

subsection \<open>Ingestion\<close>




lemma array_body_response:
  "update_balance fmt st (Inr (JArr xs)) =
     (st, if \<forall>k \<in> {''peer_id'', ''balance'', ''timestamp'', ''hostname''}. JStr k \<in> set xs
          then (''Internal Server Error'', 500) else (''Invalid data'', 400))"
  by (auto simp: update_balance_def try_update_balance_def refused_def not_in_or_def
      log_balance_def)






text \<open>
  So does an array that holds the four names and nothing of a report: it passes the
  test of line 53, and line 56 raises.
\<close>

lemma array_of_names_is_server_error:
  "update_balance fmt st
     (Inr (JArr [JStr ''peer_id'', JStr ''balance'', JStr ''timestamp'', JStr ''hostname'']))
   = (st, ''Internal Server Error'', 500)"
  by (simp add: array_body_response)

subsection \<open>Response headers\<close>

lemma add_header_headers:
  "headers (add_header r) ''Cache-Control'' =
     Some ''no-store, no-cache, must-revalidate, post-check=0, pre-check=0, max-age=0'' \<and>
   headers (add_header r) ''Pragma'' = Some ''no-cache'' \<and>
   headers (add_header r) ''Expires'' = Some ''0''"
  by (simp add: add_header_def)

text \<open>
  Claim C10. Every response the application produces, for the report, for an
  ingestion call and for the error answers 400 and 500 alike, carries the three
  headers that disable caching.
\<close>

theorem responses_disable_caching:
  assumes "serve fmt read_csv sort_values st req = (st', Inr resp)"
  shows "headers resp ''Cache-Control'' =
           Some ''no-store, no-cache, must-revalidate, post-check=0, pre-check=0, max-age=0'' \<and>
         headers resp ''Pragma'' = Some ''no-cache'' \<and>
         headers resp ''Expires'' = Some ''0''"
proof -
  from assms obtain r where "resp = add_header r"
    by (auto simp: serve_def split: request.splits prod.splits sum.splits)
  then show ?thesis by (simp only: add_header_headers)
qed

text \<open>
  The theorem at an ingestion call whose body is no JSON, sent while the directory
  is missing: the answer is the generic failure with status 500, and it carries the
  headers.
\<close>

theorem responses_disable_caching_witness:
  "\<exists>resp. serve (\<lambda>v. ''?'') (\<lambda>contents. Inr ([] :: string row list)) (sort_key Date) Missing
             (Post_update_balance (Inl (Raised ''BadRequest''))) = (Missing, Inr resp) \<and>
      content resp = Plain ''Internal Server Error'' \<and> status resp = 500 \<and>
      headers resp ''Cache-Control'' =
        Some ''no-store, no-cache, must-revalidate, post-check=0, pre-check=0, max-age=0'' \<and>
      headers resp ''Pragma'' = Some ''no-cache'' \<and>
      headers resp ''Expires'' = Some ''0''"
proof -
  have h: "serve (\<lambda>v. ''?'') (\<lambda>contents. Inr ([] :: string row list)) (sort_key Date) Missing
             (Post_update_balance (Inl (Raised ''BadRequest''))) =
           (Missing, Inr (add_header (make_response (Plain ''Internal Server Error'') 500)))"
    by (simp add: serve_def update_balance_def try_update_balance_def)
  from responses_disable_caching [OF h] h show ?thesis
    by (simp add: add_header_def make_response_def)
qed

end
